theory Spec2Isabelle
  imports Complex_Main "HOL-Library.Word" "HOL-Library.AList"
begin

section \<open>Strings and values of the JavaScript runtime\<close>

text \<open>
  The program is \<^verbatim>\<open>server.js\<close>, an Express handler that translates OpenAI-style chat
  requests for the NVIDIA NIM API. A JavaScript string is a sequence of 16-bit code
  units; \<open>lit\<close> writes an ASCII literal of the source as such a sequence. A chunk of
  the upstream stream is a sequence of bytes.
\<close>

type_synonym u16 = "16 word"
type_synonym jsstring = "u16 list"
type_synonym byte = "8 word"

definition lit :: "string \<Rightarrow> jsstring" where
  "lit s = map (\<lambda>c. of_nat (of_char c)) s"

text \<open>\<^verbatim>\<open>s.startsWith(p)\<close> and \<^verbatim>\<open>s.includes(p)\<close>.\<close>

definition startsWith :: "'a list \<Rightarrow> 'a list \<Rightarrow> bool" where
  "startsWith s p = (take (length p) s = p)"

fun includes_str :: "'a list \<Rightarrow> 'a list \<Rightarrow> bool" where
  "includes_str [] p = (p = [])"
| "includes_str (c # cs) p = (startsWith (c # cs) p \<or> includes_str cs p)"

text \<open>
  \<^verbatim>\<open>String.prototype.toLowerCase\<close>, on the code units whose lower case lies in ASCII:
  \<open>A\<close> to \<open>Z\<close>, U+0130 (which becomes \<open>i\<close> followed by U+0307) and the Kelvin sign
  U+212A (which becomes \<open>k\<close>). Every other code unit is kept: its lower case is
  outside ASCII, so it cannot take part in a match of the ASCII needles the source
  searches for.
\<close>

definition lower_unit :: "u16 \<Rightarrow> jsstring" where
  "lower_unit c =
     (if 0x41 \<le> c \<and> c \<le> 0x5A then [c + 0x20]
      else if c = 0x130 then [0x69, 0x307]
      else if c = 0x212A then [0x6B]
      else [c])"

definition toLowerCase :: "jsstring \<Rightarrow> jsstring" where
  "toLowerCase s = concat (map lower_unit s)"

section \<open>Model resolution\<close>

text \<open>
  \<^verbatim>\<open>MODEL_MAPPING\<close> is an object literal, so \<^verbatim>\<open>MODEL_MAPPING[model]\<close> looks the key up
  among its own properties first and then along the prototype chain, that is in
  \<^verbatim>\<open>Object.prototype\<close>, whose property names are listed in \<open>Object_prototype\<close>. Each
  of them holds a function (or, for \<^verbatim>\<open>__proto__\<close>, the prototype object): a truthy
  value that is not a string.
\<close>

definition MODEL_MAPPING :: "(jsstring \<times> jsstring) list" where
  "MODEL_MAPPING =
     [(lit ''gpt-3.5-turbo'', lit ''nvidia/llama-3.1-nemotron-ultra-253b-v1''),
      (lit ''gpt-4'', lit ''qwen/qwen3-coder-480b-a35b-instruct''),
      (lit ''gpt-4-turbo'', lit ''moonshotai/kimi-k2-instruct-0905''),
      (lit ''gpt-4o'', lit ''moonshotai/kimi-k2-instruct-0905''),
      (lit ''claude-3-opus'', lit ''openai/gpt-oss-120b''),
      (lit ''claude-3-sonnet'', lit ''openai/gpt-oss-20b''),
      (lit ''gemini-pro'', lit ''qwen/qwen3-next-80b-a3b-thinking'')]"

definition Object_prototype :: "jsstring list" where
  "Object_prototype =
     [lit ''constructor'', lit ''__defineGetter__'', lit ''__defineSetter__'',
      lit ''hasOwnProperty'', lit ''__lookupGetter__'', lit ''__lookupSetter__'',
      lit ''isPrototypeOf'', lit ''propertyIsEnumerable'', lit ''toString'',
      lit ''valueOf'', lit ''__proto__'', lit ''toLocaleString'']"

text \<open>
  \<^verbatim>\<open>pickFallbackModel\<close>. Its only caller passes the validated \<^verbatim>\<open>model\<close>, a string, on
  which \<^verbatim>\<open>String(requestedModel || "")\<close> is the string itself.
\<close>

definition pickFallbackModel :: "jsstring \<Rightarrow> jsstring" where
  "pickFallbackModel requestedModel =
     (let modelLower = toLowerCase requestedModel in
      if includes_str modelLower (lit ''405b'') \<or> includes_str modelLower (lit ''gpt-4'')
         \<or> includes_str modelLower (lit ''opus'')
      then lit ''meta/llama-3.1-405b-instruct''
      else if includes_str modelLower (lit ''70b'') \<or> includes_str modelLower (lit ''sonnet'')
         \<or> includes_str modelLower (lit ''gemini'')
      then lit ''meta/llama-3.1-70b-instruct''
      else lit ''meta/llama-3.1-8b-instruct'')"

text \<open>
  The value of \<^verbatim>\<open>MODEL_MAPPING[model] || pickFallbackModel(model)\<close>: a model
  identifier, or the member of \<^verbatim>\<open>Object.prototype\<close> that the lookup found.
\<close>

datatype model_value = ModelId jsstring | PrototypeMember jsstring

definition nimModel :: "jsstring \<Rightarrow> model_value" where
  "nimModel model =
     (case map_of MODEL_MAPPING model of
        Some v \<Rightarrow> if v \<noteq> [] then ModelId v else ModelId (pickFallbackModel model)
      | None \<Rightarrow>
          if model \<in> set Object_prototype then PrototypeMember model
          else ModelId (pickFallbackModel model))"

section \<open>Values, truthiness and property access\<close>

text \<open>
  A number is a double. A finite number is modelled by the rational it denotes (a
  negative zero is not told apart from zero), and a numeric literal of the source,
  such as \<^verbatim>\<open>0.6\<close>, stands for the double it denotes. Where the runtime rounds a
  mathematical value to a double, the model applies the runtime's \<open>RoundToDouble\<close>.
\<close>

datatype jsnum = NaN | PosInf | NegInf | Fin rat

text \<open>
  The values that \<^verbatim>\<open>JSON.parse\<close> and the body parser produce, and \<^verbatim>\<open>undefined\<close>. An
  object is the list of its own properties in insertion order.
\<close>

datatype js =
    Undefined
  | Null
  | Bool bool
  | Num jsnum
  | Str jsstring
  | Arr "js list"
  | Obj "(jsstring \<times> js) list"

fun truthy :: "js \<Rightarrow> bool" where
  "truthy Undefined = False"
| "truthy Null = False"
| "truthy (Bool b) = b"
| "truthy (Num n) = (n \<noteq> NaN \<and> n \<noteq> Fin 0)"
| "truthy (Str s) = (s \<noteq> [])"
| "truthy (Arr xs) = True"
| "truthy (Obj kvs) = True"

text \<open>
  \<^verbatim>\<open>v?.k\<close> for the property names the source reads (\<^verbatim>\<open>model\<close>, \<^verbatim>\<open>messages\<close>,
  \<^verbatim>\<open>choices\<close>, \<^verbatim>\<open>delta\<close>, \<^verbatim>\<open>content\<close>, ...). None of them is defined on a built-in
  prototype, so the value is the object's own property or \<^verbatim>\<open>undefined\<close>; on an
  array, a string, a number or a boolean it is \<^verbatim>\<open>undefined\<close>.
\<close>

fun get :: "js \<Rightarrow> jsstring \<Rightarrow> js" where
  "get (Obj kvs) k = (case map_of kvs k of Some v \<Rightarrow> v | None \<Rightarrow> Undefined)"
| "get v k = Undefined"

text \<open>\<^verbatim>\<open>v?.[0]\<close>: the first element of an array, the first code unit of a string.\<close>

fun get0 :: "js \<Rightarrow> js" where
  "get0 (Arr xs) = (case xs of [] \<Rightarrow> Undefined | x # _ \<Rightarrow> x)"
| "get0 (Str s) = (case s of [] \<Rightarrow> Undefined | c # _ \<Rightarrow> Str [c])"
| "get0 (Obj kvs) = get (Obj kvs) (lit ''0'')"
| "get0 v = Undefined"

text \<open>
  \<^verbatim>\<open>v.k = x\<close> and \<^verbatim>\<open>delete v.k\<close> for such a name. The file is a sloppy-mode script:
  an assignment to a property of a primitive is ignored, and a named property put on
  an array is not serialised by \<^verbatim>\<open>JSON.stringify\<close>, the only reader of the value.
\<close>

fun set_prop :: "js \<Rightarrow> jsstring \<Rightarrow> js \<Rightarrow> js" where
  "set_prop (Obj kvs) k x = Obj (AList.update k x kvs)"
| "set_prop v k x = v"

fun delete_prop :: "js \<Rightarrow> jsstring \<Rightarrow> js" where
  "delete_prop (Obj kvs) k = Obj (AList.delete k kvs)"
| "delete_prop v k = v"

text \<open>\<^verbatim>\<open>v[0] = x\<close> on the value that \<^verbatim>\<open>v?.[0]\<close> was read from.\<close>

fun set0 :: "js \<Rightarrow> js \<Rightarrow> js" where
  "set0 (Arr xs) x = (case xs of [] \<Rightarrow> Arr [x] | _ # ys \<Rightarrow> Arr (x # ys))"
| "set0 (Obj kvs) x = set_prop (Obj kvs) (lit ''0'') x"
| "set0 v x = v"

section \<open>Exceptions and coercions\<close>

text \<open>
  What the handler can catch: a \<^verbatim>\<open>TypeError\<close> of the engine, or the error of a failed
  \<^verbatim>\<open>axios.post\<close> with its message and, when a response came, its status.
\<close>

datatype engine_error = NotPrimitive | NullishMember | NotAFunction | CircularStructure

datatype exn = TypeError engine_error | AxiosError jsstring "nat option"

text \<open>
  The library functions of the runtime that the model does not define: the numeric
  value of a string (\<^verbatim>\<open>ToNumber\<close> on strings), the decimal text of a finite number,
  the double nearest to a rational (an infinity when it is out of range),
  \<^verbatim>\<open>JSON.parse\<close> (\<open>None\<close> when it throws \<^verbatim>\<open>SyntaxError\<close>), \<^verbatim>\<open>JSON.stringify\<close> and the
  message text of an engine error. \<open>JSON_of_stream\<close> is what \<^verbatim>\<open>JSON.stringify\<close> makes
  of the live stream object of an upstream response that will emit the given chunks:
  the value serialised, or \<open>None\<close> when it throws its \<^verbatim>\<open>TypeError\<close> for a cyclic
  structure. Which of the two depends on the versions of axios and of Node that are
  installed, and the source does not fix them.
\<close>

record runtime =
  StringToNumber :: "jsstring \<Rightarrow> jsnum"
  NumberToString :: "rat \<Rightarrow> jsstring"
  RoundToDouble :: "rat \<Rightarrow> jsnum"
  JSON_parse :: "jsstring \<Rightarrow> js option"
  JSON_stringify :: "js \<Rightarrow> jsstring"
  JSON_of_stream :: "byte list list \<Rightarrow> js option"
  TypeError_message :: "engine_error \<Rightarrow> jsstring"

definition Number_toString :: "runtime \<Rightarrow> jsnum \<Rightarrow> jsstring" where
  "Number_toString rt n =
     (case n of NaN \<Rightarrow> lit ''NaN'' | PosInf \<Rightarrow> lit ''Infinity''
      | NegInf \<Rightarrow> lit ''-Infinity'' | Fin q \<Rightarrow> NumberToString rt q)"

text \<open>
  \<^verbatim>\<open>ToString\<close>. An array is joined with commas, \<^verbatim>\<open>null\<close> and \<^verbatim>\<open>undefined\<close> elements
  giving the empty string. A parsed object inherits \<^verbatim>\<open>Object.prototype.toString\<close>
  unless it has an own property \<^verbatim>\<open>toString\<close>, which is never callable: then no
  method yields a primitive and the conversion throws.
\<close>

fun ToString :: "runtime \<Rightarrow> js \<Rightarrow> exn + jsstring"
  and join :: "runtime \<Rightarrow> js list \<Rightarrow> exn + jsstring" where
  "ToString rt Undefined = Inr (lit ''undefined'')"
| "ToString rt Null = Inr (lit ''null'')"
| "ToString rt (Bool b) = Inr (if b then lit ''true'' else lit ''false'')"
| "ToString rt (Num n) = Inr (Number_toString rt n)"
| "ToString rt (Str s) = Inr s"
| "ToString rt (Arr xs) = join rt xs"
| "ToString rt (Obj kvs) =
     (if map_of kvs (lit ''toString'') = None then Inr (lit ''[object Object]'')
      else Inl (TypeError NotPrimitive))"
| "join rt [] = Inr []"
| "join rt (x # xs) =
     (case (if x = Undefined \<or> x = Null then Inr [] else ToString rt x) of
        Inl e \<Rightarrow> Inl e
      | Inr a \<Rightarrow>
          if xs = [] then Inr a
          else (case join rt xs of Inl e \<Rightarrow> Inl e | Inr b \<Rightarrow> Inr (a @ lit '','' @ b)))"

text \<open>\<^verbatim>\<open>ToNumber\<close>, the unary \<^verbatim>\<open>+\<close>: an array or object goes through its string.\<close>

fun ToNumber :: "runtime \<Rightarrow> js \<Rightarrow> exn + jsnum" where
  "ToNumber rt Undefined = Inr NaN"
| "ToNumber rt Null = Inr (Fin 0)"
| "ToNumber rt (Bool b) = Inr (Fin (if b then 1 else 0))"
| "ToNumber rt (Num n) = Inr n"
| "ToNumber rt (Str s) = Inr (StringToNumber rt s)"
| "ToNumber rt v =
     (case ToString rt v of Inl e \<Rightarrow> Inl e | Inr s \<Rightarrow> Inr (StringToNumber rt s))"

fun Number_isFinite :: "jsnum \<Rightarrow> bool" where
  "Number_isFinite (Fin q) = True"
| "Number_isFinite n = False"

text \<open>
  \<^verbatim>\<open>parseInt(v, 10)\<close>: the text of \<open>v\<close> without leading white space, an optional sign,
  then the longest run of decimal digits; \<^verbatim>\<open>NaN\<close> when there is no digit, and
  otherwise the double nearest to the integer the digits denote.
\<close>

definition StrWhiteSpaceChar :: "u16 \<Rightarrow> bool" where
  "StrWhiteSpaceChar c =
     (c \<in> {0x09, 0x0A, 0x0B, 0x0C, 0x0D, 0x20, 0xA0, 0x1680, 0x2028, 0x2029, 0x202F,
            0x205F, 0x3000, 0xFEFF} \<or> (0x2000 \<le> c \<and> c \<le> 0x200A))"

definition is_digit :: "u16 \<Rightarrow> bool" where
  "is_digit c = (0x30 \<le> c \<and> c \<le> 0x39)"

definition digits_value :: "jsstring \<Rightarrow> nat" where
  "digits_value ds = foldl (\<lambda>acc c. 10 * acc + (unat c - 0x30)) 0 ds"

definition parseInt_string :: "runtime \<Rightarrow> jsstring \<Rightarrow> jsnum" where
  "parseInt_string rt inputString =
     (let s = dropWhile StrWhiteSpaceChar inputString;
          negative = startsWith s (lit ''-'');
          s' = (if startsWith s (lit ''-'') \<or> startsWith s (lit ''+'') then tl s else s);
          z = takeWhile is_digit s'
      in if z = [] then NaN
         else if negative then RoundToDouble rt (- of_nat (digits_value z))
         else RoundToDouble rt (of_nat (digits_value z)))"

definition parseInt :: "runtime \<Rightarrow> js \<Rightarrow> exn + jsnum" where
  "parseInt rt v =
     (case ToString rt v of Inl e \<Rightarrow> Inl e | Inr s \<Rightarrow> Inr (parseInt_string rt s))"

fun toBool :: "js \<Rightarrow> bool" where
  "toBool v = (v = Bool True \<or> v = Str (lit ''true'') \<or> v = Num (Fin 1) \<or> v = Str (lit ''1''))"

text \<open>
  The two numeric fields of the upstream request:
  \<^verbatim>\<open>Number.isFinite(+body.temperature) ? +body.temperature : 0.6\<close> and
  \<^verbatim>\<open>Number.isFinite(+body.max_tokens) ? parseInt(body.max_tokens, 10) : 2048\<close>.
\<close>

definition temperature_of :: "runtime \<Rightarrow> js \<Rightarrow> exn + jsnum" where
  "temperature_of rt body =
     (case ToNumber rt (get body (lit ''temperature'')) of
        Inl e \<Rightarrow> Inl e
      | Inr n \<Rightarrow> if Number_isFinite n then Inr n else Inr (Fin (6 / 10)))"

definition max_tokens_of :: "runtime \<Rightarrow> js \<Rightarrow> exn + jsnum" where
  "max_tokens_of rt body =
     (case ToNumber rt (get body (lit ''max_tokens'')) of
        Inl e \<Rightarrow> Inl e
      | Inr n \<Rightarrow>
          if Number_isFinite n then parseInt rt (get body (lit ''max_tokens''))
          else Inr (Fin 2048))"

section \<open>Decoding a chunk\<close>

text \<open>
  \<^verbatim>\<open>chunk.toString("utf8")\<close> decodes the bytes of one chunk on their own. Every
  maximal ill-formed part, also a sequence cut short by the end of the chunk, becomes
  one U+FFFD. The decoder state: the code point so far, the continuation bytes seen
  and needed, and the range allowed for the next byte.
\<close>

record utf8_state =
  code_point :: nat
  bytes_seen :: nat
  bytes_needed :: nat
  lower_boundary :: nat
  upper_boundary :: nat

definition utf8_start :: utf8_state where
  "utf8_start =
     \<lparr>code_point = 0, bytes_seen = 0, bytes_needed = 0,
      lower_boundary = 0x80, upper_boundary = 0xBF\<rparr>"

definition utf16 :: "nat \<Rightarrow> jsstring" where
  "utf16 cp =
     (if cp < 0x10000 then [of_nat cp]
      else [of_nat (0xD800 + (cp - 0x10000) div 0x400),
            of_nat (0xDC00 + (cp - 0x10000) mod 0x400)])"

definition utf8_lead :: "nat \<Rightarrow> jsstring \<times> utf8_state" where
  "utf8_lead b =
     (if b \<le> 0x7F then ([of_nat b], utf8_start)
      else if 0xC2 \<le> b \<and> b \<le> 0xDF
        then ([], utf8_start\<lparr>bytes_needed := 1, code_point := b mod 0x20\<rparr>)
      else if 0xE0 \<le> b \<and> b \<le> 0xEF
        then ([], utf8_start\<lparr>bytes_needed := 2, code_point := b mod 0x10,
                   lower_boundary := (if b = 0xE0 then 0xA0 else 0x80),
                   upper_boundary := (if b = 0xED then 0x9F else 0xBF)\<rparr>)
      else if 0xF0 \<le> b \<and> b \<le> 0xF4
        then ([], utf8_start\<lparr>bytes_needed := 3, code_point := b mod 0x08,
                   lower_boundary := (if b = 0xF0 then 0x90 else 0x80),
                   upper_boundary := (if b = 0xF4 then 0x8F else 0xBF)\<rparr>)
      else ([0xFFFD], utf8_start))"

definition utf8_step :: "utf8_state \<Rightarrow> nat \<Rightarrow> jsstring \<times> utf8_state" where
  "utf8_step st b =
     (if bytes_needed st = 0 then utf8_lead b
      else if b < lower_boundary st \<or> upper_boundary st < b
        then (0xFFFD # fst (utf8_lead b), snd (utf8_lead b))
      else if bytes_seen st + 1 = bytes_needed st
        then (utf16 (code_point st * 0x40 + b mod 0x40), utf8_start)
      else ([], st\<lparr>code_point := code_point st * 0x40 + b mod 0x40,
                    bytes_seen := bytes_seen st + 1,
                    lower_boundary := 0x80, upper_boundary := 0xBF\<rparr>))"

fun utf8_decode :: "utf8_state \<Rightarrow> byte list \<Rightarrow> jsstring" where
  "utf8_decode st [] = (if bytes_needed st = 0 then [] else [0xFFFD])"
| "utf8_decode st (b # bs) =
     (case utf8_step st (unat b) of (out, st') \<Rightarrow> out @ utf8_decode st' bs)"

definition toString_utf8 :: "byte list \<Rightarrow> jsstring" where
  "toString_utf8 chunk = utf8_decode utf8_start chunk"

section \<open>The frame rewriter\<close>

text \<open>
  \<^verbatim>\<open>ToPrimitive\<close> and the binary \<^verbatim>\<open>+\<close>: concatenation when either primitive is a
  string, addition of numbers otherwise.
\<close>

fun ToPrimitive :: "runtime \<Rightarrow> js \<Rightarrow> exn + js" where
  "ToPrimitive rt (Arr xs) =
     (case ToString rt (Arr xs) of Inl e \<Rightarrow> Inl e | Inr s \<Rightarrow> Inr (Str s))"
| "ToPrimitive rt (Obj kvs) =
     (case ToString rt (Obj kvs) of Inl e \<Rightarrow> Inl e | Inr s \<Rightarrow> Inr (Str s))"
| "ToPrimitive rt v = Inr v"

fun is_Str :: "js \<Rightarrow> bool" where
  "is_Str (Str s) = True"
| "is_Str v = False"

fun num_add :: "runtime \<Rightarrow> jsnum \<Rightarrow> jsnum \<Rightarrow> jsnum" where
  "num_add rt (Fin a) (Fin b) = RoundToDouble rt (a + b)"
| "num_add rt NaN n = NaN"
| "num_add rt n NaN = NaN"
| "num_add rt PosInf NegInf = NaN"
| "num_add rt NegInf PosInf = NaN"
| "num_add rt PosInf n = PosInf"
| "num_add rt NegInf n = NegInf"
| "num_add rt (Fin a) n = n"

definition js_plus :: "runtime \<Rightarrow> js \<Rightarrow> js \<Rightarrow> exn + js" where
  "js_plus rt a b =
     (case ToPrimitive rt a of
        Inl e \<Rightarrow> Inl e
      | Inr lprim \<Rightarrow>
          (case ToPrimitive rt b of
             Inl e \<Rightarrow> Inl e
           | Inr rprim \<Rightarrow>
               if is_Str lprim \<or> is_Str rprim then
                 (case (ToString rt lprim, ToString rt rprim) of
                    (Inr ls, Inr rs) \<Rightarrow> Inr (Str (ls @ rs))
                  | (Inl e, _) \<Rightarrow> Inl e
                  | (_, Inl e) \<Rightarrow> Inl e)
               else
                 (case (ToNumber rt lprim, ToNumber rt rprim) of
                    (Inr m, Inr n) \<Rightarrow> Inr (Num (num_add rt m n))
                  | (Inl e, _) \<Rightarrow> Inl e
                  | (_, Inl e) \<Rightarrow> Inl e)))"

text \<open>
  The block under \<^verbatim>\<open>if (SHOW_REASONING)\<close>, on the delta and the flag
  \<^verbatim>\<open>reasoningStarted\<close>. It returns the delta after \<^verbatim>\<open>delta.content = combined\<close>, or the
  exception thrown on the way, and the flag as the block leaves it.
\<close>

definition think_open :: jsstring where
  "think_open = lit ''<think>'' @ [0x0A]"

definition think_close :: jsstring where
  "think_close = lit ''</think>'' @ [0x0A, 0x0A]"

definition merge_open :: "runtime \<Rightarrow> bool \<Rightarrow> js \<Rightarrow> exn + js \<times> bool" where
  "merge_open rt started reasoning =
     (if truthy reasoning \<and> \<not> started then
        (case js_plus rt (Str think_open) reasoning of
           Inl e \<Rightarrow> Inl e
         | Inr c \<Rightarrow> Inr (c, True))
      else if truthy reasoning then Inr (reasoning, started)
      else Inr (Str [], started))"

definition merge_close :: "runtime \<Rightarrow> bool \<Rightarrow> js \<Rightarrow> js \<Rightarrow> exn + js \<times> bool" where
  "merge_close rt started combined content =
     (if truthy content \<and> started then
        (case js_plus rt (Str think_close) content of
           Inl e \<Rightarrow> Inl e
         | Inr t \<Rightarrow>
             (case js_plus rt combined t of
                Inl e \<Rightarrow> Inl e
              | Inr c \<Rightarrow> Inr (c, False)))
      else if truthy content then
        (case js_plus rt combined content of
           Inl e \<Rightarrow> Inl e
         | Inr c \<Rightarrow> Inr (c, started))
      else Inr (combined, started))"

definition merge_reasoning :: "runtime \<Rightarrow> bool \<Rightarrow> js \<Rightarrow> (exn + js) \<times> bool" where
  "merge_reasoning rt started delta =
     (let reasoning = get delta (lit ''reasoning_content'');
          content = get delta (lit ''content'')
      in case merge_open rt started reasoning of
           Inl e \<Rightarrow> (Inl e, started)
         | Inr (combined, started1) \<Rightarrow>
             (case merge_close rt started1 combined content of
                Inl e \<Rightarrow> (Inl e, started1)
              | Inr (combined2, started2) \<Rightarrow>
                  (Inr (if truthy combined2 then set_prop delta (lit ''content'') combined2
                        else delta),
                   started2)))"

text \<open>
  The body of \<^verbatim>\<open>if (data?.choices?.[0]?.delta)\<close>: the optional merge, then
  \<^verbatim>\<open>delete delta.reasoning_content\<close> and \<^verbatim>\<open>if (!delta.content) delta.content = ""\<close>.
  \<open>show\<close> is the constant \<^verbatim>\<open>SHOW_REASONING\<close>, which the source sets to \<^verbatim>\<open>false\<close>.
\<close>

definition rewrite_delta :: "runtime \<Rightarrow> bool \<Rightarrow> bool \<Rightarrow> js \<Rightarrow> (exn + js) \<times> bool" where
  "rewrite_delta rt show started delta =
     (case (if show then merge_reasoning rt started delta else (Inr delta, started)) of
        (Inl e, st) \<Rightarrow> (Inl e, st)
      | (Inr d, st) \<Rightarrow>
          (let d' = delete_prop d (lit ''reasoning_content'')
           in (Inr (if truthy (get d' (lit ''content'')) then d'
                    else set_prop d' (lit ''content'') (Str [])),
               st)))"

text \<open>
  The delta is changed in place, inside the parsed \<open>data\<close>: the model writes the new
  delta back at \<^verbatim>\<open>data.choices[0].delta\<close>.
\<close>

definition rewrite_data :: "runtime \<Rightarrow> bool \<Rightarrow> bool \<Rightarrow> js \<Rightarrow> (exn + js) \<times> bool" where
  "rewrite_data rt show started data =
     (let choices = get data (lit ''choices'');
          choice0 = get0 choices;
          delta = get choice0 (lit ''delta'')
      in if truthy delta then
           (case rewrite_delta rt show started delta of
              (Inl e, st) \<Rightarrow> (Inl e, st)
            | (Inr delta', st) \<Rightarrow>
                (Inr (set_prop data (lit ''choices'')
                        (set0 choices (set_prop choice0 (lit ''delta'') delta'))),
                 st))
         else (Inr data, started))"

section \<open>The frame reassembler\<close>

text \<open>
  What one line makes the handler write: \<^verbatim>\<open>data: [DONE]\<close>, the rewritten data, or
  the line itself when \<^verbatim>\<open>JSON.parse\<close> or the rewriting throws.
\<close>

datatype frame = Done | DataFrame js | RawLine jsstring

definition res_write :: "runtime \<Rightarrow> frame \<Rightarrow> jsstring" where
  "res_write rt f =
     (case f of
        Done \<Rightarrow> lit ''data: [DONE]'' @ [0x0A, 0x0A]
      | DataFrame d \<Rightarrow> lit ''data: '' @ JSON_stringify rt d @ [0x0A, 0x0A]
      | RawLine l \<Rightarrow> l @ [0x0A])"

definition on_line :: "runtime \<Rightarrow> bool \<Rightarrow> bool \<Rightarrow> jsstring \<Rightarrow> frame list \<times> bool" where
  "on_line rt show started line =
     (if \<not> startsWith line (lit ''data: '') then ([], started)
      else if includes_str line (lit ''[DONE]'') then ([Done], started)
      else
        (case JSON_parse rt (drop 6 line) of
           None \<Rightarrow> ([RawLine line], started)
         | Some data \<Rightarrow>
             (case rewrite_data rt show started data of
                (Inl e, st) \<Rightarrow> ([RawLine line], st)
              | (Inr data', st) \<Rightarrow> ([DataFrame data'], st))))"

fun on_lines :: "runtime \<Rightarrow> bool \<Rightarrow> bool \<Rightarrow> jsstring list \<Rightarrow> frame list \<times> bool" where
  "on_lines rt show started [] = ([], started)"
| "on_lines rt show started (l # ls) =
     (case on_line rt show started l of
        (fs, st) \<Rightarrow> (case on_lines rt show st ls of (gs, st') \<Rightarrow> (fs @ gs, st')))"

text \<open>\<^verbatim>\<open>buffer.split("\n")\<close>: never empty, its last element is the unfinished line.\<close>

fun split_nl :: "jsstring \<Rightarrow> jsstring list" where
  "split_nl [] = [[]]"
| "split_nl (c # cs) =
     (if c = 0x0A then [] # split_nl cs
      else (case split_nl cs of [] \<Rightarrow> [[c]] | l # ls \<Rightarrow> (c # l) # ls))"

record stream_state =
  buffer :: jsstring
  reasoningStarted :: bool

definition stream_start :: stream_state where
  "stream_start = \<lparr>buffer = [], reasoningStarted = False\<rparr>"

text \<open>The handler of the stream's \<^verbatim>\<open>data\<close> event.\<close>

definition on_data :: "runtime \<Rightarrow> bool \<Rightarrow> stream_state \<Rightarrow> byte list \<Rightarrow> frame list \<times> stream_state" where
  "on_data rt show st chunk =
     (let lines = split_nl (buffer st @ toString_utf8 chunk);
          popped = (if lines = [] then [] else last lines)
      in case on_lines rt show (reasoningStarted st) (butlast lines) of
           (fs, started) \<Rightarrow> (fs, \<lparr>buffer = popped, reasoningStarted = started\<rparr>))"

fun on_chunks :: "runtime \<Rightarrow> bool \<Rightarrow> stream_state \<Rightarrow> byte list list \<Rightarrow> frame list" where
  "on_chunks rt show st [] = []"
| "on_chunks rt show st (c # cs) =
     (case on_data rt show st c of (fs, st') \<Rightarrow> fs @ on_chunks rt show st' cs)"

definition stream_frames :: "runtime \<Rightarrow> bool \<Rightarrow> byte list list \<Rightarrow> frame list" where
  "stream_frames rt show chunks = on_chunks rt show stream_start chunks"

section \<open>The handler of POST /v1/chat/completions\<close>

text \<open>
  The process configuration. \<^verbatim>\<open>SHOW_REASONING\<close> and \<^verbatim>\<open>ENABLE_THINKING_MODE\<close> are
  constants of the source, both \<^verbatim>\<open>false\<close>; the model keeps them as settings, so
  that the code they guard is part of it.
\<close>

record config =
  NIM_API_KEY :: "jsstring option"
  FORCE_NO_STREAM :: bool
  SHOW_REASONING :: bool
  ENABLE_THINKING_MODE :: bool

record nim_request =
  req_model :: model_value
  req_messages :: js
  req_temperature :: jsnum
  req_max_tokens :: jsnum
  req_stream :: bool
  req_thinking :: bool

text \<open>
  What \<^verbatim>\<open>axios.post\<close> resolves with: the status and the data, parsed for
  \<^verbatim>\<open>responseType: "json"\<close> (the raw text as a string when it is not JSON), the live
  stream object with the chunks it will emit for \<^verbatim>\<open>responseType: "stream"\<close>.
\<close>

datatype upstream_data = Parsed js | LiveStream "byte list list"

record upstream_response =
  up_status :: nat
  up_data :: upstream_data

text \<open>
  What the caller receives: \<^verbatim>\<open>res.status(s).json(v)\<close>, \<^verbatim>\<open>res.json(v)\<close>, or the event
  stream with the texts written to it.
\<close>

datatype response = StatusJson nat js | PlainJson js | EventStream "jsstring list"

fun typeof :: "js \<Rightarrow> jsstring" where
  "typeof Undefined = lit ''undefined''"
| "typeof Null = lit ''object''"
| "typeof (Bool b) = lit ''boolean''"
| "typeof (Num n) = lit ''number''"
| "typeof (Str s) = lit ''string''"
| "typeof (Arr xs) = lit ''object''"
| "typeof (Obj kvs) = lit ''object''"

fun Array_isArray :: "js \<Rightarrow> bool" where
  "Array_isArray (Arr xs) = True"
| "Array_isArray v = False"

fun nullish :: "js \<Rightarrow> bool" where
  "nullish Undefined = True"
| "nullish Null = True"
| "nullish v = False"

definition error_envelope :: "jsstring \<Rightarrow> jsstring \<Rightarrow> nat \<Rightarrow> js" where
  "error_envelope message type code =
     Obj [(lit ''error'',
           Obj [(lit ''message'', Str message), (lit ''type'', Str type),
                (lit ''code'', Num (Fin (of_nat code)))])]"

text \<open>The \<^verbatim>\<open>catch\<close> block of the handler.\<close>

definition exn_message :: "runtime \<Rightarrow> exn \<Rightarrow> jsstring" where
  "exn_message rt e =
     (case e of TypeError k \<Rightarrow> TypeError_message rt k | AxiosError m s \<Rightarrow> m)"

definition exn_status :: "exn \<Rightarrow> nat" where
  "exn_status e =
     (case e of
        TypeError k \<Rightarrow> 500
      | AxiosError m None \<Rightarrow> 500
      | AxiosError m (Some s) \<Rightarrow> if s = 0 then 500 else s)"

definition catch_response :: "runtime \<Rightarrow> exn \<Rightarrow> response" where
  "catch_response rt e =
     StatusJson (exn_status e)
       (error_envelope
          (if exn_message rt e = [] then lit ''Internal server error'' else exn_message rt e)
          (lit ''invalid_request_error'') (exn_status e))"

text \<open>
  The upstream request. \<open>model\<close> is the validated \<^verbatim>\<open>body.model\<close>, a non-empty
  string, and \<open>string_value\<close> gives its code units.
\<close>

fun string_value :: "js \<Rightarrow> jsstring" where
  "string_value (Str s) = s"
| "string_value v = []"

definition build_request :: "runtime \<Rightarrow> config \<Rightarrow> js \<Rightarrow> js \<Rightarrow> exn + nim_request" where
  "build_request rt cfg body model =
     (case temperature_of rt body of
        Inl e \<Rightarrow> Inl e
      | Inr t \<Rightarrow>
          (case max_tokens_of rt body of
             Inl e \<Rightarrow> Inl e
           | Inr mt \<Rightarrow>
               Inr \<lparr>req_model = nimModel (string_value model),
                    req_messages = get body (lit ''messages''),
                    req_temperature = t,
                    req_max_tokens = mt,
                    req_stream =
                      (if FORCE_NO_STREAM cfg then False else toBool (get body (lit ''stream''))),
                    req_thinking = ENABLE_THINKING_MODE cfg\<rparr>))"

text \<open>
  The branch \<^verbatim>\<open>upstream.status >= 400\<close>. The test \<^verbatim>\<open>typeof data === "object"\<close> also
  holds for the live stream object: \<^verbatim>\<open>res.status(upstream.status).json(data)\<close> then
  serialises the stream object itself, and the caller receives what
  \<^verbatim>\<open>JSON.stringify\<close> makes of it, or the exception reaches the \<^verbatim>\<open>catch\<close> block.
\<close>

definition forward_error :: "runtime \<Rightarrow> upstream_response \<Rightarrow> exn + response" where
  "forward_error rt upstream =
     (case up_data upstream of
        LiveStream chunks \<Rightarrow>
          (case JSON_of_stream rt chunks of
             None \<Rightarrow> Inl (TypeError CircularStructure)
           | Some v \<Rightarrow> Inr (StatusJson (up_status upstream) v))
      | Parsed v \<Rightarrow>
          if typeof v = lit ''object'' then Inr (StatusJson (up_status upstream) v)
          else
            (case (if truthy v then ToString rt v
                   else Inr (lit ''Upstream error ''
                             @ NumberToString rt (of_nat (up_status upstream)))) of
               Inl e \<Rightarrow> Inl e
             | Inr message \<Rightarrow>
                 Inr (StatusJson (up_status upstream)
                        (error_envelope message (lit ''upstream_error'') (up_status upstream)))))"

text \<open>
  The streaming path. The stream ends with \<^verbatim>\<open>res.end()\<close>, on \<^verbatim>\<open>end\<close> and on
  \<^verbatim>\<open>error\<close> alike. Data that is not a stream has no method \<^verbatim>\<open>on\<close>.
\<close>

definition stream_response :: "runtime \<Rightarrow> config \<Rightarrow> upstream_response \<Rightarrow> exn + response" where
  "stream_response rt cfg upstream =
     (case up_data upstream of
        LiveStream chunks \<Rightarrow>
          Inr (EventStream (map (res_write rt) (stream_frames rt (SHOW_REASONING cfg) chunks)))
      | Parsed v \<Rightarrow> Inl (TypeError (if nullish v then NullishMember else NotAFunction)))"

text \<open>
  The non-streaming path: one entry of \<^verbatim>\<open>choices\<close>, the \<^verbatim>\<open>map\<close> over them, and the
  envelope. A stream object has none of the properties read here.
\<close>

definition translate_choice :: "runtime \<Rightarrow> config \<Rightarrow> js \<Rightarrow> nat \<Rightarrow> exn + js" where
  "translate_choice rt cfg choice idx =
     (let message = get choice (lit ''message'');
          content = get message (lit ''content'');
          reasoning = get message (lit ''reasoning_content'')
      in case (if SHOW_REASONING cfg \<and> truthy reasoning then
                 (case ToString rt reasoning of
                    Inl e \<Rightarrow> Inl e
                  | Inr r \<Rightarrow>
                      js_plus rt (Str (think_open @ r @ [0x0A] @ think_close))
                        (if truthy content then content else Str []))
               else Inr (if truthy content then content else Str [])) of
           Inl e \<Rightarrow> Inl e
         | Inr fullContent \<Rightarrow>
             if nullish choice then Inl (TypeError NullishMember)
             else
               Inr (Obj
                 [(lit ''index'',
                   (case get choice (lit ''index'') of
                      Num (Fin q) \<Rightarrow> Num (Fin q)
                    | _ \<Rightarrow> Num (Fin (of_nat idx)))),
                  (lit ''message'',
                   Obj [(lit ''role'',
                         (if truthy (get message (lit ''role'')) then get message (lit ''role'')
                          else Str (lit ''assistant''))),
                        (lit ''content'', fullContent)]),
                  (lit ''finish_reason'',
                   (if truthy (get choice (lit ''finish_reason''))
                    then get choice (lit ''finish_reason'')
                    else Str (lit ''stop'')))]))"

fun map_choices :: "runtime \<Rightarrow> config \<Rightarrow> js list \<Rightarrow> nat \<Rightarrow> exn + js list" where
  "map_choices rt cfg [] idx = Inr []"
| "map_choices rt cfg (c # cs) idx =
     (case translate_choice rt cfg c idx of
        Inl e \<Rightarrow> Inl e
      | Inr c' \<Rightarrow>
          (case map_choices rt cfg cs (Suc idx) of
             Inl e \<Rightarrow> Inl e
           | Inr cs' \<Rightarrow> Inr (c' # cs')))"

definition data_value :: "upstream_data \<Rightarrow> js" where
  "data_value d = (case d of Parsed v \<Rightarrow> v | LiveStream chunks \<Rightarrow> Obj [])"

definition openaiResponse :: "runtime \<Rightarrow> config \<Rightarrow> nat \<Rightarrow> js \<Rightarrow> upstream_response \<Rightarrow> exn + js" where
  "openaiResponse rt cfg now model upstream =
     (let d = data_value (up_data upstream) in
      if nullish d then Inl (TypeError NullishMember)
      else
        (case (case get d (lit ''choices'') of
                 Arr cs \<Rightarrow> map_choices rt cfg cs 0
               | v \<Rightarrow> if truthy v then Inl (TypeError NotAFunction) else Inr []) of
           Inl e \<Rightarrow> Inl e
         | Inr choices \<Rightarrow>
             Inr (Obj
               [(lit ''id'', Str (lit ''chatcmpl-'' @ NumberToString rt (of_nat now))),
                (lit ''object'', Str (lit ''chat.completion'')),
                (lit ''created'', Num (Fin (of_nat (now div 1000)))),
                (lit ''model'', model),
                (lit ''choices'', Arr choices),
                (lit ''usage'',
                 (if truthy (get d (lit ''usage'')) then get d (lit ''usage'')
                  else Obj [(lit ''prompt_tokens'', Num (Fin 0)),
                            (lit ''completion_tokens'', Num (Fin 0)),
                            (lit ''total_tokens'', Num (Fin 0))]))])))"

text \<open>What the handler does with the upstream response, inside its \<^verbatim>\<open>try\<close>.\<close>

definition respond :: "runtime \<Rightarrow> config \<Rightarrow> nat \<Rightarrow> js \<Rightarrow> bool \<Rightarrow> upstream_response \<Rightarrow> response" where
  "respond rt cfg now model stream upstream =
     (case (if 400 \<le> up_status upstream then forward_error rt upstream
            else if stream then stream_response rt cfg upstream
            else (case openaiResponse rt cfg now model upstream of
                    Inl e \<Rightarrow> Inl e
                  | Inr envelope \<Rightarrow> Inr (PlainJson envelope))) of
        Inl e \<Rightarrow> catch_response rt e
      | Inr r \<Rightarrow> r)"

text \<open>
  The handler: the response, and the requests sent upstream. \<open>axios_post\<close> is the
  upstream, \<open>now\<close> the clock in milliseconds, \<open>req_body\<close> the parsed body
  (\<^verbatim>\<open>undefined\<close> when there is none).
\<close>

definition missing_key_message :: jsstring where
  "missing_key_message =
     lit ''Server misconfigured: NIM_API_KEY is missing (set it in Render environment variables).''"

text \<open>The test \<^verbatim>\<open>!model || typeof model !== "string"\<close>.\<close>

definition invalid_model :: "js \<Rightarrow> bool" where
  "invalid_model model = (\<not> truthy model \<or> typeof model \<noteq> lit ''string'')"

definition chat_completions ::
  "runtime \<Rightarrow> config \<Rightarrow> (nim_request \<Rightarrow> exn + upstream_response) \<Rightarrow> nat \<Rightarrow> js
   \<Rightarrow> response \<times> nim_request list" where
  "chat_completions rt cfg axios_post now req_body =
     (if NIM_API_KEY cfg = None \<or> NIM_API_KEY cfg = Some [] then
        (StatusJson 500 (error_envelope missing_key_message (lit ''server_error'') 500), [])
      else
        (let body = (if truthy req_body then req_body else Obj []);
             model = get body (lit ''model'');
             messages = get body (lit ''messages'')
         in if invalid_model model then
              (StatusJson 400
                 (error_envelope (lit ''Missing or invalid 'model' in request body'')
                    (lit ''invalid_request_error'') 400), [])
            else if \<not> Array_isArray messages then
              (StatusJson 400
                 (error_envelope (lit ''Missing or invalid 'messages' array in request body'')
                    (lit ''invalid_request_error'') 400), [])
            else
              (case build_request rt cfg body model of
                 Inl e \<Rightarrow> (catch_response rt e, [])
               | Inr nimRequest \<Rightarrow>
                   (case axios_post nimRequest of
                      Inl e \<Rightarrow> (catch_response rt e, [nimRequest])
                    | Inr upstream \<Rightarrow>
                        (respond rt cfg now model (req_stream nimRequest) upstream,
                         [nimRequest])))))"

text \<open>\<^verbatim>\<open>data?.choices?.[0]?.delta?.content\<close>, and an ASCII text as bytes.\<close>

definition delta_of :: "js \<Rightarrow> js" where
  "delta_of data = get (get0 (get data (lit ''choices''))) (lit ''delta'')"

definition delta_content :: "js \<Rightarrow> js" where
  "delta_content data = get (delta_of data) (lit ''content'')"

definition ascii :: "string \<Rightarrow> byte list" where
  "ascii s = map (\<lambda>c. of_nat (of_char c)) s"

text \<open>
  A runtime and an upstream for the closed instances below: the instances either do
  not call the library functions or say what \<^verbatim>\<open>JSON.parse\<close> returns.
\<close>

definition sample_runtime :: runtime where
  "sample_runtime =
     \<lparr>StringToNumber = (\<lambda>s. NaN), NumberToString = (\<lambda>q. []), RoundToDouble = Fin,
      JSON_parse = (\<lambda>s. None), JSON_stringify = (\<lambda>v. []),
      JSON_of_stream = (\<lambda>chunks. None),
      TypeError_message = (\<lambda>k. [])\<rparr>"

definition refusing_upstream :: "nim_request \<Rightarrow> exn + upstream_response" where
  "refusing_upstream r = Inl (AxiosError (lit ''connect ECONNREFUSED'') None)"

section \<open>Properties of model resolution\<close>

lemma nimModel_table:
  "map_of MODEL_MAPPING model = Some v \<Longrightarrow> nimModel model = ModelId v"
  by (auto simp: nimModel_def MODEL_MAPPING_def lit_def split: if_splits)

lemma nimModel_miss:
  "map_of MODEL_MAPPING model = None \<Longrightarrow> model \<notin> set Object_prototype \<Longrightarrow>
   nimModel model = ModelId (pickFallbackModel model)"
  by (simp add: nimModel_def)

lemma pickFallbackModel_tiers:
  "pickFallbackModel m =
     (if includes_str (toLowerCase m) (lit ''405b'') \<or> includes_str (toLowerCase m) (lit ''gpt-4'')
         \<or> includes_str (toLowerCase m) (lit ''opus'')
      then lit ''meta/llama-3.1-405b-instruct''
      else if includes_str (toLowerCase m) (lit ''70b'') \<or> includes_str (toLowerCase m) (lit ''sonnet'')
         \<or> includes_str (toLowerCase m) (lit ''gemini'')
      then lit ''meta/llama-3.1-70b-instruct''
      else lit ''meta/llama-3.1-8b-instruct'')"
  by (simp add: pickFallbackModel_def Let_def)

text \<open>
  C1. The claim: every model string that is not a key of the table resolves to one of
  the three fallback identifiers. The string \<^verbatim>\<open>constructor\<close> is not a key of the table,
  and the lookup finds the inherited \<^verbatim>\<open>Object.prototype.constructor\<close>: the resolved
  value is that function, not a model identifier, and \<^verbatim>\<open>pickFallbackModel\<close> is not
  called.
\<close>

theorem nimModel_constructor:
  "map_of MODEL_MAPPING (lit ''constructor'') = None \<and>
   nimModel (lit ''constructor'') = PrototypeMember (lit ''constructor'')"
  by (simp add: nimModel_def MODEL_MAPPING_def Object_prototype_def lit_def)

section \<open>Properties of the request translation\<close>

lemma temperature_of_finite:
  "temperature_of rt body = Inr t \<Longrightarrow> Number_isFinite t"
  by (auto simp: temperature_of_def split: sum.splits if_splits)

lemma temperature_of_absent:
  "get body (lit ''temperature'') = Undefined \<Longrightarrow> temperature_of rt body = Inr (Fin (6 / 10))"
  by (simp add: temperature_of_def)

lemma max_tokens_of_absent:
  "get body (lit ''max_tokens'') = Undefined \<Longrightarrow> max_tokens_of rt body = Inr (Fin 2048)"
  by (simp add: max_tokens_of_def)

text \<open>
  C6. The claim: the upstream \<^verbatim>\<open>max_tokens\<close> is the caller's value as an integer when
  that is finite and 2048 otherwise, and \<^verbatim>\<open>NaN\<close> is never sent upstream. The guard
  tests \<^verbatim>\<open>+body.max_tokens\<close> and the value is \<^verbatim>\<open>parseInt(body.max_tokens, 10)\<close>: for
  the body \<^verbatim>\<open>{"model": "gpt-4", "messages": [], "max_tokens": null}\<close> the guard sees 0,
  \<^verbatim>\<open>parseInt\<close> reads the text \<^verbatim>\<open>null\<close>, and the one request sent upstream carries
  \<^verbatim>\<open>max_tokens = NaN\<close>, whatever the upstream and the other settings are.
\<close>

theorem max_tokens_null_sends_NaN:
  "snd (chat_completions rt
          \<lparr>NIM_API_KEY = Some (lit ''key''), FORCE_NO_STREAM = f, SHOW_REASONING = s,
           ENABLE_THINKING_MODE = t\<rparr>
          axios_post now
          (Obj [(lit ''model'', Str (lit ''gpt-4'')), (lit ''messages'', Arr []),
                (lit ''max_tokens'', Null)]))
   = [\<lparr>req_model = ModelId (lit ''qwen/qwen3-coder-480b-a35b-instruct''),
       req_messages = Arr [], req_temperature = Fin (6 / 10), req_max_tokens = NaN,
       req_stream = False, req_thinking = t\<rparr>]"
  by (simp add: chat_completions_def invalid_model_def build_request_def temperature_of_def
      max_tokens_of_def parseInt_def parseInt_string_def lit_def startsWith_def
      StrWhiteSpaceChar_def is_digit_def nimModel_def MODEL_MAPPING_def Let_def
      split: sum.split)

section \<open>Properties of the error forwarding\<close>

lemma forward_error_object:
  "up_data upstream = Parsed v \<Longrightarrow> typeof v = lit ''object'' \<Longrightarrow>
   forward_error rt upstream = Inr (StatusJson (up_status upstream) v)"
  by (simp add: forward_error_def)

lemma forward_error_text:
  "up_data upstream = Parsed (Str (c # cs)) \<Longrightarrow>
   forward_error rt upstream =
     Inr (StatusJson (up_status upstream)
            (error_envelope (c # cs) (lit ''upstream_error'') (up_status upstream)))"
  by (simp add: forward_error_def lit_def)

lemma upstream_error_forwarded:
  "typeof v = lit ''object'' \<Longrightarrow>
   fst (chat_completions rt
          \<lparr>NIM_API_KEY = Some (lit ''key''), FORCE_NO_STREAM = f, SHOW_REASONING = s,
           ENABLE_THINKING_MODE = t\<rparr>
          (\<lambda>r. Inr \<lparr>up_status = 429, up_data = Parsed v\<rparr>) now
          (Obj [(lit ''model'', Str (lit ''gpt-4'')), (lit ''messages'', Arr [])]))
   = StatusJson 429 v"
  by (simp add: chat_completions_def invalid_model_def build_request_def temperature_of_def
      max_tokens_of_def lit_def respond_def forward_error_def Let_def)

lemma streamed_upstream_body_lost:
  "JSON_of_stream rt chunks \<noteq> Some body \<Longrightarrow>
   fst (chat_completions rt
          \<lparr>NIM_API_KEY = Some (lit ''key''), FORCE_NO_STREAM = False, SHOW_REASONING = s,
           ENABLE_THINKING_MODE = t\<rparr>
          (\<lambda>r. Inr \<lparr>up_status = 429, up_data = LiveStream chunks\<rparr>) now
          (Obj [(lit ''model'', Str (lit ''gpt-4'')), (lit ''messages'', Arr []),
                (lit ''stream'', Bool True)]))
   \<noteq> StatusJson 429 body"
  by (cases "JSON_of_stream rt chunks")
     (simp_all add: chat_completions_def invalid_model_def build_request_def temperature_of_def
        max_tokens_of_def lit_def respond_def forward_error_def catch_response_def Let_def
        nimModel_def MODEL_MAPPING_def error_envelope_def exn_status_def)

text \<open>
  C8. The claim: an upstream status of 400 or more reaches the caller with the same
  status, and a structured body is forwarded as it is. For a request with
  \<^verbatim>\<open>stream: true\<close> the data of the upstream response is the live stream object,
  whatever the status and the body: \<^verbatim>\<open>typeof data === "object"\<close> holds and the
  handler passes the stream object itself to \<^verbatim>\<open>res.json\<close>. For an upstream 429 the
  caller receives either 429 with the serialised stream object, or, when serialising
  it throws, the answer of the \<^verbatim>\<open>catch\<close> block. The upstream body is never read: the
  answer is what the runtime makes of the stream object.
\<close>

theorem streamed_upstream_error_not_forwarded:
  "fst (chat_completions rt
          \<lparr>NIM_API_KEY = Some (lit ''key''), FORCE_NO_STREAM = False, SHOW_REASONING = s,
           ENABLE_THINKING_MODE = t\<rparr>
          (\<lambda>r. Inr \<lparr>up_status = 429, up_data = LiveStream chunks\<rparr>) now
          (Obj [(lit ''model'', Str (lit ''gpt-4'')), (lit ''messages'', Arr []),
                (lit ''stream'', Bool True)]))
   = (case JSON_of_stream rt chunks of
        None \<Rightarrow> catch_response rt (TypeError CircularStructure)
      | Some v \<Rightarrow> StatusJson 429 v)"
  by (simp add: chat_completions_def invalid_model_def build_request_def temperature_of_def
      max_tokens_of_def lit_def respond_def forward_error_def Let_def nimModel_def
      MODEL_MAPPING_def split: option.splits)

section \<open>Properties of the line classification\<close>

lemma on_line_discarded:
  "\<not> startsWith line (lit ''data: '') \<Longrightarrow> on_line rt show started line = ([], started)"
  by (simp add: on_line_def)

lemma on_line_done:
  "startsWith line (lit ''data: '') \<Longrightarrow> includes_str line (lit ''[DONE]'') \<Longrightarrow>
   on_line rt show started line = ([Done], started)"
  by (simp add: on_line_def)

lemma on_line_unparsed:
  "startsWith line (lit ''data: '') \<Longrightarrow> \<not> includes_str line (lit ''[DONE]'') \<Longrightarrow>
   JSON_parse rt (drop 6 line) = None \<Longrightarrow>
   on_line rt show started line = ([RawLine line], started)"
  by (simp add: on_line_def)

lemma on_line_parsed:
  "startsWith line (lit ''data: '') \<Longrightarrow> \<not> includes_str line (lit ''[DONE]'') \<Longrightarrow>
   JSON_parse rt (drop 6 line) = Some data \<Longrightarrow>
   rewrite_data rt show started data = (Inr data', st) \<Longrightarrow>
   on_line rt show started line = ([DataFrame data'], st)"
  by (simp add: on_line_def)

text \<open>
  C3. The claim: a line is a termination frame when its payload equals
  \<^verbatim>\<open>[DONE]\<close>, and otherwise a data frame when its payload parses as JSON. The source
  tests \<^verbatim>\<open>line.includes("[DONE]")\<close>: the line
  \<^verbatim>\<open>data: {"choices":[{"delta":{"content":"[DONE]"}}]}\<close>, whose payload is a JSON
  object and not the token, is answered with a termination frame, and its data is
  dropped without being parsed.
\<close>

theorem done_inside_payload:
  "drop 6 (lit ''data: {\"choices\":[{\"delta\":{\"content\":\"[DONE]\"}}]}'') \<noteq> lit ''[DONE]'' \<and>
   on_line rt show started (lit ''data: {\"choices\":[{\"delta\":{\"content\":\"[DONE]\"}}]}'')
     = ([Done], started)"
  by (simp add: on_line_def startsWith_def lit_def)

section \<open>Properties of the frame rewriter\<close>

text \<open>
  C4. With the reasoning display enabled and the flag \<^verbatim>\<open>reasoningStarted\<close> initially
  false, the frames with the deltas \<^verbatim>\<open>{reasoning_content: "A"}\<close>,
  \<^verbatim>\<open>{reasoning_content: "B"}\<close> and \<^verbatim>\<open>{content: "C"}\<close>, rewritten one after the other
  (each starting with the flag the one before left), give three frames whose
  \<^verbatim>\<open>delta.content\<close> are strings that concatenate to
  \<^verbatim>\<open><think>\nAB</think>\n\nC\<close>; the flag ends false.
\<close>

theorem reasoning_merge_A_B_C:
  "\<exists>d1 d2 d3 s1 s2 s3.
     rewrite_data rt True False
       (Obj [(lit ''choices'',
              Arr [Obj [(lit ''delta'', Obj [(lit ''reasoning_content'', Str (lit ''A''))])]])])
       = (Inr d1, True) \<and>
     rewrite_data rt True True
       (Obj [(lit ''choices'',
              Arr [Obj [(lit ''delta'', Obj [(lit ''reasoning_content'', Str (lit ''B''))])]])])
       = (Inr d2, True) \<and>
     rewrite_data rt True True
       (Obj [(lit ''choices'',
              Arr [Obj [(lit ''delta'', Obj [(lit ''content'', Str (lit ''C''))])]])])
       = (Inr d3, False) \<and>
     delta_content d1 = Str s1 \<and> delta_content d2 = Str s2 \<and> delta_content d3 = Str s3 \<and>
     s1 @ s2 @ s3 = lit ''<think>'' @ [0x0A] @ lit ''AB</think>'' @ [0x0A, 0x0A] @ lit ''C''"
  by (simp add: rewrite_data_def rewrite_delta_def merge_reasoning_def merge_open_def
      merge_close_def js_plus_def think_open_def think_close_def lit_def delta_content_def
      delta_of_def Let_def)

lemma get_set_prop_same: "get (set_prop (Obj kvs) k x) k = x"
  by (simp add: update_conv)


lemma get_delete_prop_other: "k' \<noteq> k \<Longrightarrow> get (delete_prop v k) k' = get v k'"
  by (cases v) (simp_all add: delete_conv)

lemma get_Obj_is: "get v k = Obj kvs \<Longrightarrow> \<exists>ps. v = Obj ps \<and> map_of ps k = Some (Obj kvs)"
  by (cases v) (auto split: option.splits)

lemma get_Arr_is: "get v k = Arr xs \<Longrightarrow> \<exists>ps. v = Obj ps \<and> map_of ps k = Some (Arr xs)"
  by (cases v) (auto split: option.splits)

lemma rc_neq_content: "lit ''reasoning_content'' \<noteq> lit ''content''"
  by (simp add: lit_def)

lemma merge_reasoning_Obj:
  "merge_reasoning rt started (Obj kvs) = (Inr d, st) \<Longrightarrow> \<exists>ps. d = Obj ps"
  by (auto simp: merge_reasoning_def Let_def split: sum.splits prod.splits if_splits)

lemma rewrite_delta_Obj:
  assumes "rewrite_delta rt show started (Obj kvs) = (Inr d, st)"
  shows "\<exists>ps v. d = Obj ps \<and> map_of ps (lit ''reasoning_content'') = None \<and>
           map_of ps (lit ''content'') = Some v \<and> (truthy v \<or> v = Str [])"
proof -
  obtain d0 where d0: "(if show then merge_reasoning rt started (Obj kvs) else (Inr (Obj kvs), started)) = (Inr d0, st)"
    using assms by (auto simp: rewrite_delta_def Let_def split: sum.splits prod.splits)
  then obtain qs where qs: "d0 = Obj qs"
    using merge_reasoning_Obj [of rt started kvs d0 st] by (cases "show") auto
  have d: "d = (if truthy (get (delete_prop d0 (lit ''reasoning_content'')) (lit ''content''))
               then delete_prop d0 (lit ''reasoning_content'')
               else set_prop (delete_prop d0 (lit ''reasoning_content'')) (lit ''content'') (Str []))"
    using assms d0 by (simp add: rewrite_delta_def Let_def)
  show ?thesis
    unfolding d qs using rc_neq_content
    by (auto simp: update_conv delete_conv split: option.splits)
qed

lemma rewrite_delta_plain:
  "rewrite_delta rt False started (Obj kvs) =
     (Inr (if truthy (get (Obj kvs) (lit ''content''))
           then delete_prop (Obj kvs) (lit ''reasoning_content'')
           else set_prop (delete_prop (Obj kvs) (lit ''reasoning_content'')) (lit ''content'') (Str [])),
      started)"
  using rc_neq_content by (simp add: rewrite_delta_def Let_def delete_conv)

lemma delta_of_written:
  assumes "get data (lit ''choices'') = Arr (c0 # cs)" and "get c0 (lit ''delta'') = Obj kvs"
  shows "delta_of (set_prop data (lit ''choices'') (set0 (Arr (c0 # cs)) (set_prop c0 (lit ''delta'') d))) = d"
proof -
  obtain ps where ps: "data = Obj ps" using get_Arr_is [OF assms(1)] by auto
  obtain qs where qs: "c0 = Obj qs" using get_Obj_is [OF assms(2)] by auto
  show ?thesis unfolding ps qs by (simp add: delta_of_def update_conv)
qed

lemma rewrite_data_shape:
  assumes "get data (lit ''choices'') = Arr (c0 # cs)" and "get c0 (lit ''delta'') = Obj kvs"
  shows "rewrite_data rt show started data =
           (case rewrite_delta rt show started (Obj kvs) of
              (Inl e, st) \<Rightarrow> (Inl e, st)
            | (Inr d, st) \<Rightarrow>
                (Inr (set_prop data (lit ''choices'')
                        (set0 (Arr (c0 # cs)) (set_prop c0 (lit ''delta'') d))), st))"
  using assms by (simp add: rewrite_data_def Let_def split: prod.splits sum.splits)

lemma delta_of_shape:
  "get data (lit ''choices'') = Arr (c0 # cs) \<Longrightarrow> delta_of data = get c0 (lit ''delta'')"
  by (simp add: delta_of_def)

lemma rewrite_data_plain_total:
  "\<exists>data'. rewrite_data rt False started data = (Inr data', started)"
  by (simp add: rewrite_data_def rewrite_delta_def Let_def)

text \<open>
  C5, as stated, fails: the guard is \<^verbatim>\<open>if (!delta.content) delta.content = ""\<close>, so a
  content that is present and falsy is replaced too. With the reasoning display
  disabled, a delta whose content is \<^verbatim>\<open>false\<close> (or \<^verbatim>\<open>null\<close>) leaves with the content
  \<^verbatim>\<open>""\<close>, which is neither the original content nor the default for an absent one.
\<close>

theorem falsy_content_counterexample:
  "rewrite_data sample_runtime False False
     (Obj [(lit ''choices'', Arr [Obj [(lit ''delta'', Obj [(lit ''content'', Bool False)])]])])
   = (Inr (Obj [(lit ''choices'', Arr [Obj [(lit ''delta'', Obj [(lit ''content'', Str [])])]])]),
      False) \<and>
   rewrite_data sample_runtime False False
     (Obj [(lit ''choices'', Arr [Obj [(lit ''delta'', Obj [(lit ''content'', Null)])]])])
   = (Inr (Obj [(lit ''choices'', Arr [Obj [(lit ''delta'', Obj [(lit ''content'', Str [])])]])]),
      False)"
  by (simp add: lit_def rewrite_data_def rewrite_delta_def Let_def)

text \<open>
  C5, amended. For every parsed frame of the shape \<^verbatim>\<open>{choices: [{delta: {...}}, ...]}\<close>:
  with the reasoning display disabled the frame is always rewritten, the flag is
  unchanged, the rewritten delta has no \<^verbatim>\<open>reasoning_content\<close>, and its content is the
  original content when that is truthy and the empty string when it is absent or
  falsy (\<^verbatim>\<open>null\<close>, \<^verbatim>\<open>false\<close>, \<^verbatim>\<open>0\<close>, \<^verbatim>\<open>""\<close>). With the display enabled, every frame
  the rewriter produces has no \<^verbatim>\<open>reasoning_content\<close> in its delta either.
\<close>

theorem content_kept_or_emptied:
  assumes "get data (lit ''choices'') = Arr (c0 # cs)" and "get c0 (lit ''delta'') = Obj kvs"
  shows "(\<exists>data' kvs'. rewrite_data rt False started data = (Inr data', started) \<and>
            delta_of data' = Obj kvs' \<and> map_of kvs' (lit ''reasoning_content'') = None \<and>
            delta_content data' =
              (if truthy (delta_content data) then delta_content data else Str [])) \<and>
         (\<forall>data' st'. rewrite_data rt True started data = (Inr data', st') \<longrightarrow>
            (\<exists>kvs'. delta_of data' = Obj kvs' \<and> map_of kvs' (lit ''reasoning_content'') = None))"
proof (intro conjI allI impI)
  let ?d = "if truthy (get (Obj kvs) (lit ''content''))
            then delete_prop (Obj kvs) (lit ''reasoning_content'')
            else set_prop (delete_prop (Obj kvs) (lit ''reasoning_content'')) (lit ''content'') (Str [])"
  let ?data' = "set_prop data (lit ''choices'') (set0 (Arr (c0 # cs)) (set_prop c0 (lit ''delta'') ?d))"
  have run: "rewrite_data rt False started data = (Inr ?data', started)"
    by (simp add: rewrite_data_shape [OF assms] rewrite_delta_plain)
  have d: "delta_of ?data' = ?d" by (rule delta_of_written [OF assms])
  have c: "delta_content data = get (Obj kvs) (lit ''content'')"
    by (simp add: delta_content_def delta_of_shape [OF assms(1)] assms(2))
  have "\<exists>kvs'. ?d = Obj kvs' \<and> map_of kvs' (lit ''reasoning_content'') = None"
    using rc_neq_content by (simp add: delete_conv update_conv)
  moreover have "get ?d (lit ''content'') =
      (if truthy (get (Obj kvs) (lit ''content'')) then get (Obj kvs) (lit ''content'') else Str [])"
    using rc_neq_content by (simp add: delete_conv update_conv)
  ultimately show "\<exists>data' kvs'. rewrite_data rt False started data = (Inr data', started) \<and>
            delta_of data' = Obj kvs' \<and> map_of kvs' (lit ''reasoning_content'') = None \<and>
            delta_content data' =
              (if truthy (delta_content data) then delta_content data else Str [])"
    using run d c by (auto simp: delta_content_def)
next
  fix data' st'
  assume r: "rewrite_data rt True started data = (Inr data', st')"
  then obtain d where d: "rewrite_delta rt True started (Obj kvs) = (Inr d, st')"
    and data': "data' = set_prop data (lit ''choices'') (set0 (Arr (c0 # cs)) (set_prop c0 (lit ''delta'') d))"
    by (auto simp: rewrite_data_shape [OF assms] split: prod.splits sum.splits)
  from rewrite_delta_Obj [OF d] delta_of_written [OF assms, of d]
  show "\<exists>kvs'. delta_of data' = Obj kvs' \<and> map_of kvs' (lit ''reasoning_content'') = None"
    unfolding data' by auto
qed

text \<open>
  The instance of C5 at the frame with the delta
  \<^verbatim>\<open>{reasoning_content: "hm", content: "Hi"}\<close>.
\<close>

theorem content_kept_or_emptied_witness:
  "get (Obj [(lit ''choices'',
              Arr [Obj [(lit ''delta'',
                         Obj [(lit ''reasoning_content'', Str (lit ''hm'')),
                              (lit ''content'', Str (lit ''Hi''))])]])])
       (lit ''choices'')
     = Arr [Obj [(lit ''delta'',
                  Obj [(lit ''reasoning_content'', Str (lit ''hm'')),
                       (lit ''content'', Str (lit ''Hi''))])]] \<and>
   rewrite_data sample_runtime False False
     (Obj [(lit ''choices'',
            Arr [Obj [(lit ''delta'',
                       Obj [(lit ''reasoning_content'', Str (lit ''hm'')),
                            (lit ''content'', Str (lit ''Hi''))])]])])
     = (Inr (Obj [(lit ''choices'',
                   Arr [Obj [(lit ''delta'', Obj [(lit ''content'', Str (lit ''Hi''))])]])]),
        False)"
  using content_kept_or_emptied
    [of "Obj [(lit ''choices'',
              Arr [Obj [(lit ''delta'',
                         Obj [(lit ''reasoning_content'', Str (lit ''hm'')),
                              (lit ''content'', Str (lit ''Hi''))])]])]"
        "Obj [(lit ''delta'',
                         Obj [(lit ''reasoning_content'', Str (lit ''hm'')),
                              (lit ''content'', Str (lit ''Hi''))])]" "[]"
        "[(lit ''reasoning_content'', Str (lit ''hm'')),
                              (lit ''content'', Str (lit ''Hi''))]" sample_runtime False]
  by (simp add: lit_def rewrite_data_def rewrite_delta_def Let_def)






section \<open>Properties of the handler\<close>

lemma get_body_default: "get (if truthy v then v else Obj []) k = get v k"
  by (cases v) simp_all

lemma get_falsy: "\<not> truthy v \<Longrightarrow> get v k = Undefined"
  by (cases v) simp_all

lemma catch_response_not_plain: "catch_response rt e \<noteq> PlainJson v"
  by (simp add: catch_response_def)

lemma forward_error_not_plain: "forward_error rt upstream \<noteq> Inr (PlainJson v)"
  by (auto simp: forward_error_def
      split: upstream_data.splits option.splits sum.splits if_splits)

lemma stream_response_not_plain: "stream_response rt cfg upstream \<noteq> Inr (PlainJson v)"
  by (auto simp: stream_response_def split: upstream_data.splits)

lemma openaiResponse_model:
  "openaiResponse rt cfg now model upstream = Inr envelope \<Longrightarrow>
   get envelope (lit ''model'') = model"
  by (auto simp: openaiResponse_def Let_def lit_def split: sum.splits if_splits)

lemma respond_plain:
  "respond rt cfg now model stream upstream = PlainJson envelope \<Longrightarrow>
   get envelope (lit ''model'') = model"
  using catch_response_not_plain forward_error_not_plain stream_response_not_plain
    openaiResponse_model
  by (auto simp: respond_def split: sum.splits if_splits)

lemma invalid_model_iff: "\<not> invalid_model model \<longleftrightarrow> (\<exists>m. model = Str m \<and> m \<noteq> [])"
  by (cases model) (auto simp: invalid_model_def lit_def)

lemma build_request_model:
  "build_request rt cfg body model = Inr r \<Longrightarrow> req_model r = nimModel (string_value model)"
  by (auto simp: build_request_def split: sum.splits)

lemma chat_completions_no_key:
  "NIM_API_KEY cfg = None \<or> NIM_API_KEY cfg = Some [] \<Longrightarrow>
   chat_completions rt cfg axios_post now req_body =
     (StatusJson 500 (error_envelope missing_key_message (lit ''server_error'') 500), [])"
  by (simp add: chat_completions_def)

lemma chat_completions_invalid_model:
  "NIM_API_KEY cfg = Some k \<Longrightarrow> k \<noteq> [] \<Longrightarrow> invalid_model (get req_body (lit ''model'')) \<Longrightarrow>
   chat_completions rt cfg axios_post now req_body =
     (StatusJson 400
        (error_envelope (lit ''Missing or invalid 'model' in request body'')
           (lit ''invalid_request_error'') 400), [])"
  by (simp add: chat_completions_def Let_def get_body_default)

lemma chat_completions_invalid_messages:
  "NIM_API_KEY cfg = Some k \<Longrightarrow> k \<noteq> [] \<Longrightarrow> \<not> invalid_model (get req_body (lit ''model'')) \<Longrightarrow>
   \<not> Array_isArray (get req_body (lit ''messages'')) \<Longrightarrow>
   chat_completions rt cfg axios_post now req_body =
     (StatusJson 400
        (error_envelope (lit ''Missing or invalid 'messages' array in request body'')
           (lit ''invalid_request_error'') 400), [])"
  by (simp add: chat_completions_def Let_def get_body_default)

lemma chat_completions_valid:
  "NIM_API_KEY cfg = Some k \<Longrightarrow> k \<noteq> [] \<Longrightarrow> \<not> invalid_model (get req_body (lit ''model'')) \<Longrightarrow>
   Array_isArray (get req_body (lit ''messages'')) \<Longrightarrow>
   chat_completions rt cfg axios_post now req_body =
     (case build_request rt cfg (if truthy req_body then req_body else Obj [])
             (get req_body (lit ''model'')) of
        Inl e \<Rightarrow> (catch_response rt e, [])
      | Inr nimRequest \<Rightarrow>
          (case axios_post nimRequest of
             Inl e \<Rightarrow> (catch_response rt e, [nimRequest])
           | Inr upstream \<Rightarrow>
               (respond rt cfg now (get req_body (lit ''model'')) (req_stream nimRequest) upstream,
                [nimRequest])))"
  by (cases "truthy req_body") (simp_all add: chat_completions_def Let_def get_falsy)

lemma chat_completions_calls_invalid:
  "invalid_model (get req_body (lit ''model'')) \<or> \<not> Array_isArray (get req_body (lit ''messages'')) \<Longrightarrow>
   snd (chat_completions rt cfg axios_post now req_body) = []"
  by (auto simp: chat_completions_def Let_def get_body_default)

lemma non_stream_path:
  assumes "NIM_API_KEY cfg = Some k" "k \<noteq> []"
      and "\<not> invalid_model (get req_body (lit ''model''))"
      and "Array_isArray (get req_body (lit ''messages''))"
      and "build_request rt cfg (if truthy req_body then req_body else Obj [])
             (get req_body (lit ''model'')) = Inr r"
      and "\<not> req_stream r"
      and "axios_post r = Inr upstream"
      and "up_status upstream < 400"
  shows "chat_completions rt cfg axios_post now req_body =
           ((case openaiResponse rt cfg now (get req_body (lit ''model'')) upstream of
               Inl e \<Rightarrow> catch_response rt e
             | Inr envelope \<Rightarrow> PlainJson envelope), [r])"
  using assms(5-8)
  by (simp add: chat_completions_valid [OF assms(1-4)] respond_def split: sum.splits)

text \<open>
  C7. Whenever the handler answers with \<^verbatim>\<open>res.json(openaiResponse)\<close>, the envelope of
  the non-streaming path, the \<^verbatim>\<open>model\<close> of the envelope is the \<^verbatim>\<open>model\<close> of the
  request body: a string \<open>m\<close>, while the one request sent upstream carries the resolved
  \<open>nimModel m\<close>.
\<close>

theorem envelope_echoes_model:
  assumes "chat_completions rt cfg axios_post now req_body = (PlainJson envelope, calls)"
  shows "get envelope (lit ''model'') = get req_body (lit ''model'') \<and>
         (\<exists>m r. get req_body (lit ''model'') = Str m \<and> calls = [r] \<and> req_model r = nimModel m)"
proof -
  let ?model = "get req_body (lit ''model'')"
  let ?body = "if truthy req_body then req_body else Obj []"
  obtain k where key: "NIM_API_KEY cfg = Some k" "k \<noteq> []"
    using assms chat_completions_no_key [of cfg rt axios_post now req_body]
    by (cases "NIM_API_KEY cfg") auto
  have v1: "\<not> invalid_model ?model"
    using assms chat_completions_invalid_model [OF key, of req_body rt axios_post now] by auto
  have v2: "Array_isArray (get req_body (lit ''messages''))"
    using assms chat_completions_invalid_messages [OF key v1, of rt axios_post now] by auto
  note run = chat_completions_valid [OF key v1 v2, of rt axios_post now]
  obtain r where r: "build_request rt cfg ?body ?model = Inr r"
    using assms run catch_response_not_plain by (cases "build_request rt cfg ?body ?model") auto
  obtain upstream where u: "axios_post r = Inr upstream"
    using assms run r catch_response_not_plain by (cases "axios_post r") auto
  have resp: "respond rt cfg now ?model (req_stream r) upstream = PlainJson envelope" "calls = [r]"
    using assms run r u by auto
  obtain m where m: "?model = Str m" using v1 invalid_model_iff by blast
  have "req_model r = nimModel m" using build_request_model [OF r] m by simp
  with respond_plain [OF resp(1)] resp(2) m show ?thesis by auto
qed

text \<open>
  The instance of C7 for the model \<^verbatim>\<open>gpt-4\<close>: the upstream request names
  \<^verbatim>\<open>qwen/qwen3-coder-480b-a35b-instruct\<close>, the envelope names \<^verbatim>\<open>gpt-4\<close>.
\<close>

theorem envelope_echoes_model_witness:
  "chat_completions sample_runtime
     \<lparr>NIM_API_KEY = Some (lit ''key''), FORCE_NO_STREAM = False, SHOW_REASONING = False,
      ENABLE_THINKING_MODE = False\<rparr>
     (\<lambda>r. Inr \<lparr>up_status = 200, up_data = Parsed (Obj [])\<rparr>) 0
     (Obj [(lit ''model'', Str (lit ''gpt-4'')), (lit ''messages'', Arr [])])
   = (PlainJson
        (Obj [(lit ''id'', Str (lit ''chatcmpl-'')),
              (lit ''object'', Str (lit ''chat.completion'')),
              (lit ''created'', Num (Fin 0)),
              (lit ''model'', Str (lit ''gpt-4'')),
              (lit ''choices'', Arr []),
              (lit ''usage'',
               Obj [(lit ''prompt_tokens'', Num (Fin 0)),
                    (lit ''completion_tokens'', Num (Fin 0)),
                    (lit ''total_tokens'', Num (Fin 0))])]),
      [\<lparr>req_model = ModelId (lit ''qwen/qwen3-coder-480b-a35b-instruct''),
        req_messages = Arr [], req_temperature = Fin (6 / 10), req_max_tokens = Fin 2048,
        req_stream = False, req_thinking = False\<rparr>])"
proof -
  have run: "chat_completions sample_runtime
     \<lparr>NIM_API_KEY = Some (lit ''key''), FORCE_NO_STREAM = False, SHOW_REASONING = False,
      ENABLE_THINKING_MODE = False\<rparr>
     (\<lambda>r. Inr \<lparr>up_status = 200, up_data = Parsed (Obj [])\<rparr>) 0
     (Obj [(lit ''model'', Str (lit ''gpt-4'')), (lit ''messages'', Arr [])])
   = (PlainJson
        (Obj [(lit ''id'', Str (lit ''chatcmpl-'')),
              (lit ''object'', Str (lit ''chat.completion'')),
              (lit ''created'', Num (Fin 0)),
              (lit ''model'', Str (lit ''gpt-4'')),
              (lit ''choices'', Arr []),
              (lit ''usage'',
               Obj [(lit ''prompt_tokens'', Num (Fin 0)),
                    (lit ''completion_tokens'', Num (Fin 0)),
                    (lit ''total_tokens'', Num (Fin 0))])]),
      [\<lparr>req_model = nimModel (lit ''gpt-4''),
        req_messages = Arr [], req_temperature = Fin (6 / 10), req_max_tokens = Fin 2048,
        req_stream = False, req_thinking = False\<rparr>])"
    by (simp add: chat_completions_def invalid_model_def build_request_def temperature_of_def
        max_tokens_of_def respond_def openaiResponse_def data_value_def sample_runtime_def
        lit_def Let_def)
  from envelope_echoes_model [OF run] run show ?thesis
    by (simp add: nimModel_def MODEL_MAPPING_def lit_def)
qed

lemma not_string_invalid: "typeof model \<noteq> lit ''string'' \<Longrightarrow> invalid_model model"
  by (simp add: invalid_model_def)

text \<open>
  C9, as stated, fails: the test of \<^verbatim>\<open>NIM_API_KEY\<close> comes before the validation, so
  without the key a request with no \<^verbatim>\<open>model\<close> is answered 500 with the type
  \<^verbatim>\<open>server_error\<close>, not 400.
\<close>

theorem missing_key_counterexample:
  "chat_completions sample_runtime
     \<lparr>NIM_API_KEY = None, FORCE_NO_STREAM = False, SHOW_REASONING = False,
      ENABLE_THINKING_MODE = False\<rparr>
     refusing_upstream 0 (Obj [(lit ''messages'', Arr [])])
   = (StatusJson 500 (error_envelope missing_key_message (lit ''server_error'') 500), [])"
  by (simp add: chat_completions_def)

text \<open>
  C9, amended. For every request whose \<^verbatim>\<open>model\<close> is missing or not a string, or whose
  \<^verbatim>\<open>messages\<close> is missing or not an array: no request is sent upstream, and when
  \<^verbatim>\<open>NIM_API_KEY\<close> is set the response is 400 with an error envelope of the type
  \<^verbatim>\<open>invalid_request_error\<close> and the code 400.
\<close>

theorem invalid_request_rejected:
  assumes "typeof (get req_body (lit ''model'')) \<noteq> lit ''string'' \<or>
           \<not> Array_isArray (get req_body (lit ''messages''))"
  shows "snd (chat_completions rt cfg axios_post now req_body) = [] \<and>
         (\<forall>k. NIM_API_KEY cfg = Some k \<and> k \<noteq> [] \<longrightarrow>
            (\<exists>message. fst (chat_completions rt cfg axios_post now req_body) =
               StatusJson 400 (error_envelope message (lit ''invalid_request_error'') 400)))"
proof (intro conjI allI impI)
  show "snd (chat_completions rt cfg axios_post now req_body) = []"
    using assms not_string_invalid chat_completions_calls_invalid by blast
next
  fix k assume k: "NIM_API_KEY cfg = Some k \<and> k \<noteq> []"
  show "\<exists>message. fst (chat_completions rt cfg axios_post now req_body) =
               StatusJson 400 (error_envelope message (lit ''invalid_request_error'') 400)"
  proof (cases "invalid_model (get req_body (lit ''model''))")
    case True
    then show ?thesis using chat_completions_invalid_model k by fastforce
  next
    case False
    then have "\<not> Array_isArray (get req_body (lit ''messages''))"
      using assms not_string_invalid by blast
    then show ?thesis using chat_completions_invalid_messages False k by fastforce
  qed
qed

text \<open>The instance of C9 at the body \<^verbatim>\<open>{"messages": []}\<close>, with the key set.\<close>

theorem invalid_request_rejected_witness:
  "typeof (get (Obj [(lit ''messages'', Arr [])]) (lit ''model'')) \<noteq> lit ''string'' \<and>
   snd (chat_completions sample_runtime
          \<lparr>NIM_API_KEY = Some (lit ''key''), FORCE_NO_STREAM = False, SHOW_REASONING = False,
           ENABLE_THINKING_MODE = False\<rparr>
          refusing_upstream 0 (Obj [(lit ''messages'', Arr [])])) = [] \<and>
   fst (chat_completions sample_runtime
          \<lparr>NIM_API_KEY = Some (lit ''key''), FORCE_NO_STREAM = False, SHOW_REASONING = False,
           ENABLE_THINKING_MODE = False\<rparr>
          refusing_upstream 0 (Obj [(lit ''messages'', Arr [])]))
     = StatusJson 400
         (error_envelope (lit ''Missing or invalid 'model' in request body'')
            (lit ''invalid_request_error'') 400)"
proof -
  have h: "typeof (get (Obj [(lit ''messages'', Arr [])]) (lit ''model'')) \<noteq> lit ''string''"
    by (simp add: lit_def)
  have "snd (chat_completions sample_runtime
          \<lparr>NIM_API_KEY = Some (lit ''key''), FORCE_NO_STREAM = False, SHOW_REASONING = False,
           ENABLE_THINKING_MODE = False\<rparr>
          refusing_upstream 0 (Obj [(lit ''messages'', Arr [])])) = []"
    using invalid_request_rejected [of "Obj [(lit ''messages'', Arr [])]"] h by blast
  moreover have "fst (chat_completions sample_runtime
          \<lparr>NIM_API_KEY = Some (lit ''key''), FORCE_NO_STREAM = False, SHOW_REASONING = False,
           ENABLE_THINKING_MODE = False\<rparr>
          refusing_upstream 0 (Obj [(lit ''messages'', Arr [])]))
     = StatusJson 400
         (error_envelope (lit ''Missing or invalid 'model' in request body'')
            (lit ''invalid_request_error'') 400)"
    by (simp add: chat_completions_def invalid_model_def lit_def Let_def)
  ultimately show ?thesis using h by blast
qed

section \<open>Properties of the frame reassembler\<close>

text \<open>
  The frames of a stream are those of the lines of the decoded chunks, concatenated:
  the reassembly does not depend on where the text is cut. What depends on the cut
  is the decoding, done chunk by chunk.
\<close>

lemma split_nl_nonempty: "split_nl s \<noteq> []"
  by (induction s) (auto split: list.splits)

lemma split_nl_Cons:
  "split_nl (c # cs) =
     (if c = 0x0A then [] # split_nl cs
      else (c # hd (split_nl cs)) # tl (split_nl cs))"
  using split_nl_nonempty [of cs] by (cases "split_nl cs") simp_all

lemma split_nl_append:
  "split_nl (a @ b) = butlast (split_nl a) @ split_nl (last (split_nl a) @ b)"
proof (induction a)
  case Nil
  then show ?case by simp
next
  case (Cons c a)
  obtain l ls where sa: "split_nl a = l # ls"
    using split_nl_nonempty [of a] by (cases "split_nl a") auto
  obtain m ms where sb: "split_nl (last (split_nl a) @ b) = m # ms"
    using split_nl_nonempty [of "last (split_nl a) @ b"]
    by (cases "split_nl (last (split_nl a) @ b)") auto
  show ?case
  proof (cases "ls = []")
    case True
    with sa sb Cons show ?thesis by simp
  next
    case False
    with sa sb Cons show ?thesis by simp
  qed
qed


lemma last_split_nl_no_newline: "0x0A \<notin> set (last (split_nl s))"
proof (induction s)
  case Nil
  then show ?case by simp
next
  case (Cons c s)
  obtain l ls where sa: "split_nl s = l # ls"
    using split_nl_nonempty [of s] by (cases "split_nl s") auto
  with Cons show ?case by (cases "ls = []") auto
qed

lemma split_nl_no_newline: "0x0A \<notin> set b \<Longrightarrow> split_nl b = [b]"
  by (induction b) auto

lemma on_lines_append:
  "on_lines rt show st (xs @ ys) =
     (case on_lines rt show st xs of
        (fs, st1) \<Rightarrow> (case on_lines rt show st1 ys of (gs, st2) \<Rightarrow> (fs @ gs, st2)))"
proof (induction xs arbitrary: st)
  case Nil
  then show ?case by (simp split: prod.splits)
next
  case (Cons x xs)
  then show ?case by (simp split: prod.splits)
qed


lemma on_data_eq:
  "on_data rt show st c =
     (fst (on_lines rt show (reasoningStarted st)
             (butlast (split_nl (buffer st @ toString_utf8 c)))),
      \<lparr>buffer = last (split_nl (buffer st @ toString_utf8 c)),
       reasoningStarted =
         snd (on_lines rt show (reasoningStarted st)
                (butlast (split_nl (buffer st @ toString_utf8 c))))\<rparr>)"
  using split_nl_nonempty [of "buffer st @ toString_utf8 c"]
  by (simp add: on_data_def Let_def split: prod.splits)

lemma on_chunks_text:
  "0x0A \<notin> set (buffer st) \<Longrightarrow>
   on_chunks rt show st cs =
     fst (on_lines rt show (reasoningStarted st)
            (butlast (split_nl (buffer st @ concat (map toString_utf8 cs)))))"
proof (induction cs arbitrary: st)
  case Nil
  then show ?case by (simp add: split_nl_no_newline)
next
  case (Cons c cs)
  define lines where "lines = split_nl (buffer st @ toString_utf8 c)"
  define rest where "rest = concat (map toString_utf8 cs)"
  define st' where "st' = \<lparr>buffer = last lines,
     reasoningStarted = snd (on_lines rt show (reasoningStarted st) (butlast lines))\<rparr>"
  have od: "on_data rt show st c = (fst (on_lines rt show (reasoningStarted st) (butlast lines)), st')"
    unfolding st'_def lines_def by (rule on_data_eq)
  have nl: "0x0A \<notin> set (buffer st')"
    unfolding st'_def lines_def using last_split_nl_no_newline by simp
  have ih: "on_chunks rt show st' cs =
      fst (on_lines rt show (reasoningStarted st') (butlast (split_nl (buffer st' @ rest))))"
    unfolding rest_def by (rule Cons.IH [OF nl])
  have "split_nl ((buffer st @ toString_utf8 c) @ rest) =
        butlast lines @ split_nl (last lines @ rest)"
    unfolding lines_def by (rule split_nl_append)
  then have sp: "butlast (split_nl (buffer st @ concat (map toString_utf8 (c # cs)))) =
        butlast lines @ butlast (split_nl (last lines @ rest))"
    using split_nl_nonempty [of "last lines @ rest"] by (simp add: butlast_append rest_def)
  have "on_chunks rt show st (c # cs) =
        fst (on_lines rt show (reasoningStarted st) (butlast lines)) @ on_chunks rt show st' cs"
    by (simp add: od)
  also have "\<dots> = fst (on_lines rt show (reasoningStarted st)
                     (butlast lines @ butlast (split_nl (last lines @ rest))))"
    unfolding ih by (simp add: on_lines_append st'_def split: prod.splits)
  finally show ?case unfolding sp .
qed

lemma stream_frames_text:
  "stream_frames rt show cs =
     fst (on_lines rt show False (butlast (split_nl (concat (map toString_utf8 cs)))))"
  using on_chunks_text [of stream_start rt "show" cs]
  by (simp add: stream_frames_def stream_start_def)

lemma stream_frames_chunking:
  "toString_utf8 (concat cs) = concat (map toString_utf8 cs) \<Longrightarrow>
   stream_frames rt show cs = stream_frames rt show [concat cs]"
  by (simp add: stream_frames_text)

lemma utf8_decode_ascii:
  "list_all (\<lambda>b. b < 0x80) bs \<Longrightarrow>
   utf8_decode utf8_start bs = map (\<lambda>b. of_nat (unat b)) bs"
proof (induction bs)
  case Nil
  then show ?case by (simp add: utf8_start_def)
next
  case (Cons b bs)
  then have "unat b < 0x80" by (simp add: word_less_nat_alt)
  then have "utf8_step utf8_start (unat b) = ([of_nat (unat b)], utf8_start)"
    by (simp add: utf8_step_def utf8_lead_def utf8_start_def)
  with Cons show ?case by simp
qed

lemma toString_utf8_ascii_concat:
  "list_all (\<lambda>b. b < 0x80) (concat cs) \<Longrightarrow>
   toString_utf8 (concat cs) = concat (map toString_utf8 cs)"
proof -
  assume a: "list_all (\<lambda>b. b < 0x80) (concat cs)"
  then have "concat (map toString_utf8 cs) = map (\<lambda>b. of_nat (unat b)) (concat cs)"
    by (induction cs) (simp_all add: toString_utf8_def utf8_decode_ascii)
  with a show ?thesis by (simp add: toString_utf8_def utf8_decode_ascii)
qed

lemma stream_frames_chunking_ascii:
  "list_all (\<lambda>b. b < 0x80) (concat cs) \<Longrightarrow>
   stream_frames rt show cs = stream_frames rt show [concat cs]"
  by (rule stream_frames_chunking) (rule toString_utf8_ascii_concat)

text \<open>
  C2. The claim: cutting the bytes of a stream anywhere gives the same frames. The
  stream below is one line, a frame whose content is the character U+00E9, in UTF-8
  the bytes C3 A9. In one chunk the frame carries that character. Cut between the
  two bytes, each chunk is decoded on its own, each half becomes U+FFFD, and the
  frame carries two replacement characters. The assumptions say what \<^verbatim>\<open>JSON.parse\<close>
  makes of the two texts.
\<close>

theorem split_inside_character:
  assumes whole: "JSON_parse rt (lit ''{\"choices\":[{\"delta\":{\"content\":\"'' @ [0xE9] @ lit ''\"}}]}'')
             = Some (Obj [(lit ''choices'',
                           Arr [Obj [(lit ''delta'', Obj [(lit ''content'', Str [0xE9])])]])])"
      and broken: "JSON_parse rt (lit ''{\"choices\":[{\"delta\":{\"content\":\"'' @ [0xFFFD, 0xFFFD] @ lit ''\"}}]}'')
             = Some (Obj [(lit ''choices'',
                           Arr [Obj [(lit ''delta'', Obj [(lit ''content'', Str [0xFFFD, 0xFFFD])])]])])"
  shows "stream_frames rt show
           [ascii ''data: {\"choices\":[{\"delta\":{\"content\":\"'' @ [0xC3, 0xA9] @ ascii ''\"}}]}'' @ [0x0A]]
         = [DataFrame (Obj [(lit ''choices'',
                             Arr [Obj [(lit ''delta'', Obj [(lit ''content'', Str [0xE9])])]])])] \<and>
         stream_frames rt show
           [ascii ''data: {\"choices\":[{\"delta\":{\"content\":\"'' @ [0xC3],
            [0xA9] @ ascii ''\"}}]}'' @ [0x0A]]
         = [DataFrame (Obj [(lit ''choices'',
                             Arr [Obj [(lit ''delta'',
                                        Obj [(lit ''content'', Str [0xFFFD, 0xFFFD])])]])])]"
proof
  let ?pre = "''data: {\"choices\":[{\"delta\":{\"content\":\"''"
  let ?post = "''\"}}]}''"
  have dec: "toString_utf8 (ascii ?pre @ [0xC3, 0xA9] @ ascii ?post @ [0x0A])
             = lit ?pre @ [0xE9] @ lit ?post @ [0x0A]"
    by (simp add: toString_utf8_def utf8_step_def utf8_lead_def utf8_start_def utf16_def
        ascii_def lit_def)
  have lines: "butlast (split_nl (lit ?pre @ [0xE9] @ lit ?post @ [0x0A]))
               = [lit ?pre @ [0xE9] @ lit ?post]"
    by (simp add: lit_def)
  have line: "on_line rt show False (lit ?pre @ [0xE9] @ lit ?post)
              = ([DataFrame (Obj [(lit ''choices'',
                   Arr [Obj [(lit ''delta'', Obj [(lit ''content'', Str [0xE9])])]])])], False)"
    using whole
    by (simp add: lit_def on_line_def startsWith_def rewrite_data_def rewrite_delta_def
        merge_reasoning_def merge_open_def merge_close_def js_plus_def Let_def)
  show "stream_frames rt show [ascii ?pre @ [0xC3, 0xA9] @ ascii ?post @ [0x0A]]
        = [DataFrame (Obj [(lit ''choices'',
             Arr [Obj [(lit ''delta'', Obj [(lit ''content'', Str [0xE9])])]])])]"
    by (simp only: stream_frames_text list.map concat.simps append_Nil2 dec lines
        on_lines.simps line prod.case fst_conv)
next
  let ?pre = "''data: {\"choices\":[{\"delta\":{\"content\":\"''"
  let ?post = "''\"}}]}''"
  have dec1: "toString_utf8 (ascii ?pre @ [0xC3]) = lit ?pre @ [0xFFFD]"
    by (simp add: toString_utf8_def utf8_step_def utf8_lead_def utf8_start_def utf16_def
        ascii_def lit_def)
  have dec2: "toString_utf8 ([0xA9] @ ascii ?post @ [0x0A]) = [0xFFFD] @ lit ?post @ [0x0A]"
    by (simp add: toString_utf8_def utf8_step_def utf8_lead_def utf8_start_def utf16_def
        ascii_def lit_def)
  have lines: "butlast (split_nl ((lit ?pre @ [0xFFFD]) @ ([0xFFFD] @ lit ?post @ [0x0A])))
               = [lit ?pre @ [0xFFFD, 0xFFFD] @ lit ?post]"
    by (simp add: lit_def)
  have line: "on_line rt show False (lit ?pre @ [0xFFFD, 0xFFFD] @ lit ?post)
              = ([DataFrame (Obj [(lit ''choices'',
                   Arr [Obj [(lit ''delta'', Obj [(lit ''content'', Str [0xFFFD, 0xFFFD])])]])])],
                 False)"
    using broken
    by (simp add: lit_def on_line_def startsWith_def rewrite_data_def rewrite_delta_def
        merge_reasoning_def merge_open_def merge_close_def js_plus_def Let_def)
  show "stream_frames rt show [ascii ?pre @ [0xC3], [0xA9] @ ascii ?post @ [0x0A]]
        = [DataFrame (Obj [(lit ''choices'',
             Arr [Obj [(lit ''delta'', Obj [(lit ''content'', Str [0xFFFD, 0xFFFD])])]])])]"
    by (simp only: stream_frames_text list.map concat.simps append_Nil2 dec1 dec2 lines
        on_lines.simps line prod.case fst_conv)
qed

text \<open>The instance of C2 for a runtime whose \<^verbatim>\<open>JSON.parse\<close> reads the two texts.\<close>

theorem split_inside_character_witness:
  "stream_frames
     (sample_runtime\<lparr>JSON_parse := (\<lambda>s.
        if s = lit ''{\"choices\":[{\"delta\":{\"content\":\"'' @ [0xE9] @ lit ''\"}}]}''
        then Some (Obj [(lit ''choices'',
                         Arr [Obj [(lit ''delta'', Obj [(lit ''content'', Str [0xE9])])]])])
        else if s = lit ''{\"choices\":[{\"delta\":{\"content\":\"'' @ [0xFFFD, 0xFFFD] @ lit ''\"}}]}''
        then Some (Obj [(lit ''choices'',
                         Arr [Obj [(lit ''delta'', Obj [(lit ''content'', Str [0xFFFD, 0xFFFD])])]])])
        else None)\<rparr>)
     False
     [ascii ''data: {\"choices\":[{\"delta\":{\"content\":\"'' @ [0xC3],
      [0xA9] @ ascii ''\"}}]}'' @ [0x0A]]
   = [DataFrame (Obj [(lit ''choices'',
                       Arr [Obj [(lit ''delta'',
                                  Obj [(lit ''content'', Str [0xFFFD, 0xFFFD])])]])])]"
  using split_inside_character
    [of "sample_runtime\<lparr>JSON_parse := (\<lambda>s.
        if s = lit ''{\"choices\":[{\"delta\":{\"content\":\"'' @ [0xE9] @ lit ''\"}}]}''
        then Some (Obj [(lit ''choices'',
                         Arr [Obj [(lit ''delta'', Obj [(lit ''content'', Str [0xE9])])]])])
        else if s = lit ''{\"choices\":[{\"delta\":{\"content\":\"'' @ [0xFFFD, 0xFFFD] @ lit ''\"}}]}''
        then Some (Obj [(lit ''choices'',
                         Arr [Obj [(lit ''delta'', Obj [(lit ''content'', Str [0xFFFD, 0xFFFD])])]])])
        else None)\<rparr>" False]
  by (simp add: lit_def)

end
